theory Spec2Isabelle
  imports
    Complex_Main
    "HOL-Library.Sublist"
    "HOL-Library.Char_ord"
    "HOL-Library.List_Lexorder"
    "HOL-Library.Product_Lexorder"
begin

section \<open>Strings\<close>

text \<open>
  A Python \<open>str\<close> is a sequence of code points. Column names and keywords are modelled
  as \<^typ>\<open>string\<close> with one \<^typ>\<open>char\<close> per code point, which covers the Latin-1
  range (every keyword literal of the program lies in it, e.g. \<open>colegio\<close> with an acute
  accent is written with \<open>CHR 0xE9\<close>).

  \<open>str.lower()\<close> on that range maps \<open>A..Z\<close> and the accented capitals
  \<open>0xC0..0xDE\<close> (without the multiplication sign \<open>0xD7\<close>) to the code point 32
  higher and leaves every other code point alone.
\<close>

definition lower_char :: "char \<Rightarrow> char" where
  "lower_char c =
     (let n = (of_char c :: nat)
      in if (65 \<le> n \<and> n \<le> 90) \<or> (192 \<le> n \<and> n \<le> 222 \<and> n \<noteq> 215)
         then char_of (n + 32) else c)"

definition lower :: "string \<Rightarrow> string" where
  "lower s = map lower_char s"

text \<open>
  \<open>k in s\<close> on Python strings: \<open>k\<close> occurs in \<open>s\<close> as a contiguous block; the
  empty string occurs in every string.
\<close>

fun str_in :: "string \<Rightarrow> string \<Rightarrow> bool" where
  "str_in k [] = (k = [])"
| "str_in k (c # cs) = (prefix k (c # cs) \<or> str_in k cs)"

section \<open>Data frames\<close>

text \<open>
  A 64-bit float that is not NaN is a finite number or one of the two infinities; the
  rounding of finite values is not modelled (they are reals). NaN is the missing
  marker of pandas and is a cell of its own.
\<close>

datatype float64 = Fin real | PInf | NInf

datatype cell = Num float64 | Str string | NaN

text \<open>
  The dtype of a column: \<open>object\<close> (text, as read from a file) or one of the numeric
  dtypes, which the program does not tell apart.
\<close>

datatype dtype = Object | Numeric

text \<open>
  A \<open>DataFrame\<close>: the ordered column labels, the dtype of each column and the rows.
  A row gives the cell under each column label; only the labels listed in
  \<open>columns\<close> are part of the frame.
\<close>

record frame =
  columns :: "string list"
  dtypes :: "string \<Rightarrow> dtype"
  rows :: "(string \<Rightarrow> cell) list"

datatype error = KeyError | AttributeError

section \<open>Column resolver: \<open>find_similar_columns\<close>\<close>

text \<open>
  \<^verbatim>\<open>
  def find_similar_columns(data, keywords):
      found_columns = []
      for col in data.columns:
          col_lower = col.lower()
          for keyword in keywords:
              if keyword.lower() in col_lower:
                  found_columns.append(col)
                  break
      return found_columns
  \<close>
  The inner loop returns whether it reached its \<open>append\<close>/\<open>break\<close>.
\<close>

fun keyword_loop :: "string list \<Rightarrow> string \<Rightarrow> bool" where
  "keyword_loop [] col_lower = False"
| "keyword_loop (keyword # kws) col_lower =
     (if str_in (lower keyword) col_lower then True else keyword_loop kws col_lower)"

fun column_loop :: "string list \<Rightarrow> string list \<Rightarrow> string list \<Rightarrow> string list" where
  "column_loop [] kws found_columns = found_columns"
| "column_loop (col # cols) kws found_columns =
     column_loop cols kws
       (if keyword_loop kws (lower col) then found_columns @ [col] else found_columns)"

definition find_similar_columns :: "frame \<Rightarrow> string list \<Rightarrow> string list" where
  "find_similar_columns data kws = column_loop (columns data) kws []"

text \<open>
  The callers take the first found column of a role when there is one
  (\<open>colunas_escola[0] if colunas_escola\<close>, \<open>colunas_nota_lp[:1]\<close>,
  \<open>if colunas_escola_encontradas: ... [0]\<close>), and fall back to a manual choice otherwise.
\<close>

definition first_found :: "string list \<Rightarrow> string option" where
  "first_found found = (case found of [] \<Rightarrow> None | col # _ \<Rightarrow> Some col)"

text \<open>
  \<open>school_statistics\<close> resolves two roles at once: when either list is empty both
  columns are chosen by hand (\<open>None\<close> here), otherwise the first of each list is used.
  The result is the pair (\<open>coluna_total_pontos\<close>, \<open>coluna_escola\<close>).
\<close>

definition select_columns ::
  "frame \<Rightarrow> string list \<Rightarrow> string list \<Rightarrow> (string \<times> string) option" where
  "select_columns data pontos_kw escola_kw =
     (case (find_similar_columns data pontos_kw, find_similar_columns data escola_kw) of
        (coluna_total_pontos # _, coluna_escola # _) \<Rightarrow> Some (coluna_total_pontos, coluna_escola)
      | _ \<Rightarrow> None)"

definition pontos_keywords :: "string list" where
  "pontos_keywords = [''total'', ''pontos'', ''points'', ''score'', ''nota'']"

definition escola_keywords :: "string list" where
  "escola_keywords =
     [''escola'', ''school'', ''col'' @ [CHR 0xE9] @ ''gio'', ''colegio'',
      ''institui'' @ [CHR 0xE7, CHR 0xE3] @ ''o'']"

text \<open>
  The resolution rule in the words of the specification, to compare the program with:
  a column matches a role if its lowercased name contains any keyword substring of the
  role, and the first matching column in the original order is selected, none if no
  column matches.
\<close>

definition spec_matches :: "string list \<Rightarrow> string \<Rightarrow> bool" where
  "spec_matches kws col \<longleftrightarrow> (\<exists>k \<in> set kws. sublist k (lower col))"

definition spec_resolve :: "string list \<Rightarrow> string list \<Rightarrow> string option" where
  "spec_resolve cols kws = find (spec_matches kws) cols"

section \<open>Data cleaning\<close>

text \<open>
  \<open>pd.to_numeric(series, errors='coerce')\<close> on one cell of an object column: a string
  is parsed, and a string that does not parse becomes NaN; nothing is raised. The
  parser of pandas is a parameter (\<open>None\<close>: the string does not parse).
\<close>

definition to_numeric :: "(string \<Rightarrow> float64 option) \<Rightarrow> cell \<Rightarrow> cell" where
  "to_numeric parse c =
     (case c of
        Str s \<Rightarrow> (case parse s of Some v \<Rightarrow> Num v | None \<Rightarrow> NaN)
      | _ \<Rightarrow> c)"

text \<open>
  \<open>data[cols].copy()\<close>: a label that is not a column raises \<open>KeyError\<close>; the
  result has exactly the labels asked for, in that order, repeated when a label is
  asked for twice.
\<close>

definition getitem :: "frame \<Rightarrow> string list \<Rightarrow> error + frame" where
  "getitem data cols =
     (if set cols \<subseteq> set (columns data) then Inr (data\<lparr>columns := cols\<rparr>) else Inl KeyError)"

text \<open>
  \<^verbatim>\<open>
  if data_analysis[col].dtype == 'object':
      data_analysis[col] = pd.to_numeric(data_analysis[col], errors='coerce')
  \<close>
  \<open>data_analysis[col]\<close> is a \<open>Series\<close> when the label occurs once among the columns;
  when the label is repeated it is a \<open>DataFrame\<close>, which has no attribute \<open>dtype\<close>.
\<close>

definition convert_column ::
  "(string \<Rightarrow> float64 option) \<Rightarrow> frame \<Rightarrow> string \<Rightarrow> error + frame" where
  "convert_column parse data_analysis col =
     (if col \<notin> set (columns data_analysis) then Inl KeyError
      else if count_list (columns data_analysis) col \<noteq> 1 then Inl AttributeError
      else if dtypes data_analysis col = Object
      then Inr (data_analysis
             \<lparr>dtypes := (dtypes data_analysis)(col := Numeric),
              rows := map (\<lambda>r. r(col := to_numeric parse (r col))) (rows data_analysis)\<rparr>)
      else Inr data_analysis)"

fun convert_columns ::
  "(string \<Rightarrow> float64 option) \<Rightarrow> frame \<Rightarrow> string list \<Rightarrow> error + frame" where
  "convert_columns parse data_analysis [] = Inr data_analysis"
| "convert_columns parse data_analysis (col # cols) =
     (case convert_column parse data_analysis col of
        Inl e \<Rightarrow> Inl e
      | Inr converted \<Rightarrow> convert_columns parse converted cols)"

text \<open>\<open>dropna()\<close> keeps the rows that have no NaN under any column of the frame.\<close>

definition dropna :: "frame \<Rightarrow> frame" where
  "dropna df = df\<lparr>rows := filter (\<lambda>r. \<forall>c \<in> set (columns df). r c \<noteq> NaN) (rows df)\<rparr>"

text \<open>
  The cleaning step of \<open>column_analysis\<close> and \<open>correlation_analysis\<close>; the one of
  \<open>school_statistics\<close> is the same with the single metric column
  \<open>coluna_total_pontos\<close>. The counts are what the program reports.
\<close>

record cleaning =
  data_analysis :: frame
  data_clean :: frame
  initial_count :: int
  final_count :: int
  removed_count :: int

definition clean ::
  "(string \<Rightarrow> float64 option) \<Rightarrow> frame \<Rightarrow> string \<Rightarrow> string list \<Rightarrow> error + cleaning" where
  "clean parse data coluna_agrupamento colunas_analise =
     (case getitem data (coluna_agrupamento # colunas_analise) of
        Inl e \<Rightarrow> Inl e
      | Inr selected \<Rightarrow>
          (case convert_columns parse selected colunas_analise of
             Inl e \<Rightarrow> Inl e
           | Inr converted \<Rightarrow>
               (let initial = int (length (rows converted));
                    cleaned = dropna converted;
                    final = int (length (rows cleaned))
                in Inr \<lparr>data_analysis = converted, data_clean = cleaned,
                        initial_count = initial, final_count = final,
                        removed_count = initial - final\<rparr>)))"

text \<open>
  The preparation of \<open>school_statistics\<close> with the automatic column choice: the two
  roles are resolved, then the frame is cleaned. \<open>None\<close>: the columns are chosen by
  hand instead.
\<close>

definition school_statistics_clean ::
  "(string \<Rightarrow> float64 option) \<Rightarrow> frame \<Rightarrow> (error + cleaning) option" where
  "school_statistics_clean parse data =
     (case select_columns data pontos_keywords escola_keywords of
        None \<Rightarrow> None
      | Some (coluna_total_pontos, coluna_escola) \<Rightarrow>
          Some (clean parse data coluna_escola [coluna_total_pontos]))"

text \<open>The cells of one column, top to bottom (\<open>df[col].tolist()\<close>).\<close>

definition column_values :: "frame \<Rightarrow> string \<Rightarrow> cell list" where
  "column_values df col = map (\<lambda>r. r col) (rows df)"

text \<open>
  The frames read from a file: a column whose dtype is numeric holds numbers and NaN,
  never a string.
\<close>

definition well_typed :: "frame \<Rightarrow> bool" where
  "well_typed data \<longleftrightarrow>
     (\<forall>c \<in> set (columns data). dtypes data c = Numeric \<longrightarrow>
        (\<forall>r \<in> set (rows data). case r c of Str s \<Rightarrow> False | _ \<Rightarrow> True))"

text \<open>
  Two frames and a parser on which the cleaning step is run below: a column of scores
  read as text with one value that is no number, and a frame that also has a numeric
  column and missing cells.
\<close>

definition example_parse :: "string \<Rightarrow> float64 option" where
  "example_parse s =
     (if s = ''10'' then Some (Fin 10) else if s = ''20'' then Some (Fin 20)
      else if s = ''30'' then Some (Fin 30) else None)"

definition example_scores :: frame where
  "example_scores =
     \<lparr>columns = [''Nome'', ''Escola'', ''Pontos''], dtypes = (\<lambda>c. Object),
      rows = [\<lambda>c. if c = ''Pontos'' then Str ''10'' else Str ''A'',
              \<lambda>c. if c = ''Pontos'' then Str ''20'' else Str ''A'',
              \<lambda>c. if c = ''Pontos'' then Str ''abc'' else Str ''B'',
              \<lambda>c. if c = ''Pontos'' then Str ''30'' else Str ''B'']\<rparr>"

definition example_mixed :: frame where
  "example_mixed =
     \<lparr>columns = [''Escola'', ''Pontos'', ''Idade''],
      dtypes = (\<lambda>c. if c = ''Idade'' then Numeric else Object),
      rows = [\<lambda>c. if c = ''Pontos'' then Str ''10'' else if c = ''Idade'' then Num (Fin 15) else Str ''A'',
              \<lambda>c. if c = ''Pontos'' then Str ''abc'' else if c = ''Idade'' then Num (Fin 16) else Str ''A'',
              \<lambda>c. if c = ''Pontos'' then Str ''20'' else if c = ''Idade'' then Num (Fin 17) else NaN,
              \<lambda>c. if c = ''Pontos'' then Str ''30'' else if c = ''Idade'' then NaN else Str ''B'',
              \<lambda>c. if c = ''Pontos'' then Str ''20'' else if c = ''Idade'' then Num (Fin 14) else Str ''B'']\<rparr>"

section \<open>Grouped statistics\<close>

text \<open>
  \<open>.round(k)\<close> of numpy and pandas rounds to \<open>k\<close> decimals, a tie going to the even
  neighbour.
\<close>

definition rint :: "real \<Rightarrow> int" where
  "rint x =
     (let f = \<lfloor>x\<rfloor>; d = x - of_int f
      in if d < 1 / 2 then f else if 1 / 2 < d then f + 1 else if even f then f else f + 1)"

definition round_dec :: "nat \<Rightarrow> real \<Rightarrow> real" where
  "round_dec k x = of_int (rint (x * 10 ^ k)) / 10 ^ k"

text \<open>
  The rounding of a double is modelled by the rounding of the real it stands for; an
  infinity stays what it is.
\<close>

fun fround :: "nat \<Rightarrow> float64 \<Rightarrow> float64" where
  "fround k (Fin x) = Fin (round_dec k x)"
| "fround k PInf = PInf"
| "fround k NInf = NInf"

text \<open>
  The order of the floats that are not NaN: minus infinity below every finite value,
  plus infinity above. A comparison with NaN (\<open>None\<close>) is false.
\<close>

instantiation float64 :: linorder
begin

definition less_eq_float64 :: "float64 \<Rightarrow> float64 \<Rightarrow> bool" where
  "a \<le> b \<longleftrightarrow>
     (case (a, b) of
        (NInf, _) \<Rightarrow> True
      | (_, PInf) \<Rightarrow> True
      | (Fin x, Fin y) \<Rightarrow> x \<le> y
      | _ \<Rightarrow> False)"

definition less_float64 :: "float64 \<Rightarrow> float64 \<Rightarrow> bool" where
  "a < b \<longleftrightarrow> a \<le> b \<and> \<not> b \<le> (a :: float64)"

instance
  by standard (auto simp: less_eq_float64_def less_float64_def split: float64.splits)

end


text \<open>
  The aggregations of pandas on the values of one group of \<open>data_clean\<close>, which is
  never empty and holds no NaN, but may hold infinities: a result is a float or NaN
  (\<open>None\<close>). On finite values the arithmetic is the exact one; the rounding and the
  overflow of doubles are not modelled.
  \<^item> \<open>mean\<close>: the sum over the count. A sum with infinities of both signs is NaN,
    with infinities of one sign that infinity.
  \<^item> \<open>median\<close>: the middle value of the sorted values, or half the sum of the two
    middle values.
  \<^item> \<open>std\<close>: the sample standard deviation (\<open>ddof = 1\<close>), NaN for fewer than two
    values; an infinite value makes its deviation from the mean NaN, and the result
    with it.
  \<^item> \<open>min\<close>, \<open>max\<close>, \<open>count\<close>.
\<close>

definition mean :: "real list \<Rightarrow> real" where
  "mean xs = sum_list xs / real (length xs)"

definition std :: "real list \<Rightarrow> real option" where
  "std xs =
     (let n = length xs
      in if n \<le> 1 then None
         else Some (sqrt (sum_list (map (\<lambda>x. (x - mean xs)\<^sup>2) xs) / real (n - 1))))"

fun finite_value :: "float64 \<Rightarrow> real option" where
  "finite_value (Fin x) = Some x"
| "finite_value PInf = None"
| "finite_value NInf = None"

definition finite_values :: "float64 list \<Rightarrow> real list option" where
  "finite_values xs = those (map finite_value xs)"

definition group_mean :: "float64 list \<Rightarrow> float64 option" where
  "group_mean xs =
     (case finite_values xs of
        Some vs \<Rightarrow> Some (Fin (mean vs))
      | None \<Rightarrow>
          if PInf \<in> set xs \<and> NInf \<in> set xs then None
          else if PInf \<in> set xs then Some PInf else Some NInf)"

fun half_sum :: "float64 \<Rightarrow> float64 \<Rightarrow> float64 option" where
  "half_sum (Fin x) (Fin y) = Some (Fin ((x + y) / 2))"
| "half_sum PInf NInf = None"
| "half_sum NInf PInf = None"
| "half_sum PInf b = Some PInf"
| "half_sum a PInf = Some PInf"
| "half_sum NInf b = Some NInf"
| "half_sum a NInf = Some NInf"

definition group_median :: "float64 list \<Rightarrow> float64 option" where
  "group_median xs =
     (let s = sort xs; n = length s
      in if odd n then Some (s ! (n div 2)) else half_sum (s ! (n div 2 - 1)) (s ! (n div 2)))"

definition group_std :: "float64 list \<Rightarrow> float64 option" where
  "group_std xs =
     (case finite_values xs of
        Some vs \<Rightarrow> map_option Fin (std vs)
      | None \<Rightarrow> None)"

text \<open>
  One row of \<open>estatisticas_escolas\<close>: the group label and the six aggregates
  (mean, median, minimum, maximum, standard deviation, count); the field names are
  the program's column names without their accents, the accented names are in
  \<open>stats_columns\<close> below.
\<close>

record 'g stats_row =
  Escola :: 'g
  Media :: "float64 option"
  Mediana :: "float64 option"
  Minimo :: float64
  Maximo :: float64
  Desvio_Padrao :: "float64 option"
  Quantidade_Alunos :: nat

text \<open>
  The input of the aggregation is \<open>data_clean\<close> read row by row: the group label and
  the metric value of each row. \<open>groupby\<close> lists the distinct labels in increasing
  order, each with its values in row order.
\<close>

definition groupby :: "('g::linorder \<times> float64) list \<Rightarrow> ('g \<times> float64 list) list" where
  "groupby data = map (\<lambda>g. (g, map snd (filter (\<lambda>r. fst r = g) data))) (sort (remdups (map fst data)))"

definition agg :: "'g \<times> float64 list \<Rightarrow> 'g stats_row" where
  "agg grp =
     (let xs = snd grp
      in \<lparr>Escola = fst grp,
          Media = map_option (fround 2) (group_mean xs),
          Mediana = map_option (fround 2) (group_median xs),
          Minimo = fround 2 (Min (set xs)),
          Maximo = fround 2 (Max (set xs)),
          Desvio_Padrao = map_option (fround 2) (group_std xs),
          Quantidade_Alunos = length xs\<rparr>)"

text \<open>
  \<open>sort_values\<close> on the mean column with \<open>ascending=False\<close>: the largest mean
  first, the rows without a mean (NaN) last. The program leaves the order of rows of
  equal mean open; the model keeps them in group order.
\<close>

fun descending_rank :: "float64 option \<Rightarrow> nat \<times> real" where
  "descending_rank (Some PInf) = (0, 0)"
| "descending_rank (Some (Fin x)) = (1, - x)"
| "descending_rank (Some NInf) = (2, 0)"
| "descending_rank None = (3, 0)"

definition estatisticas_escolas :: "('g::linorder \<times> float64) list \<Rightarrow> 'g stats_row list" where
  "estatisticas_escolas data = sort_key (\<lambda>r. descending_rank (Media r)) (map agg (groupby data))"


section \<open>The statistics view of \<open>school_statistics\<close>\<close>

text \<open>
  A statistics table with its column labels, as \<open>reset_index()\<close> returns it: the
  grouping column first, then the aggregates under the names given in \<open>agg\<close>.
\<close>

record 'g stats_frame =
  header :: "string list"
  records :: "'g stats_row list"

definition stats_columns :: "string \<Rightarrow> string list" where
  "stats_columns coluna_escola =
     [coluna_escola, ''M'' @ [CHR 0xE9] @ ''dia'', ''Mediana'', ''M'' @ [CHR 0xED] @ ''nimo'',
      ''M'' @ [CHR 0xE1] @ ''ximo'', ''Desvio_Padr'' @ [CHR 0xE3] @ ''o'', ''Quantidade_Alunos'']"

definition estatisticas_escolas_reset ::
  "string \<Rightarrow> ('g::linorder \<times> float64) list \<Rightarrow> 'g stats_frame" where
  "estatisticas_escolas_reset coluna_escola data =
     \<lparr>header = stats_columns coluna_escola, records = estatisticas_escolas data\<rparr>"

text \<open>
  \<^verbatim>\<open>
  estatisticas_filtradas = estatisticas_escolas_reset[
      (estatisticas_escolas_reset['Quantidade_Alunos'] >= min_alunos) &
      (estatisticas_escolas_reset[coluna_escola].isin(escolas_filtradas)
         if escolas_filtradas else True)]
  \<close>
\<close>

definition estatisticas_filtradas :: "nat \<Rightarrow> 'g list \<Rightarrow> 'g stats_frame \<Rightarrow> 'g stats_frame" where
  "estatisticas_filtradas min_alunos escolas_filtradas reset =
     reset\<lparr>records :=
       filter (\<lambda>r. min_alunos \<le> Quantidade_Alunos r \<and>
                   (if escolas_filtradas \<noteq> [] then Escola r \<in> set escolas_filtradas else True))
         (records reset)\<rparr>"

text \<open>
  What the view shows and what it offers for download:
  \<open>st.dataframe(estatisticas_filtradas)\<close> and
  \<open>csv = estatisticas_escolas_reset.to_csv(index=False)\<close>. The export is modelled
  as the table handed to \<open>to_csv\<close>, header and rows.
\<close>

record 'g school_view =
  displayed :: "'g stats_frame"
  exported :: "'g stats_frame"

definition school_statistics_view ::
  "string \<Rightarrow> ('g::linorder \<times> float64) list \<Rightarrow> nat \<Rightarrow> 'g list \<Rightarrow> 'g school_view" where
  "school_statistics_view coluna_escola data min_alunos escolas_filtradas =
     (let reset = estatisticas_escolas_reset coluna_escola data
      in \<lparr>displayed = estatisticas_filtradas min_alunos escolas_filtradas reset,
          exported = reset\<rparr>)"

section \<open>Correlation\<close>

text \<open>
  \<open>DataFrame.corr()\<close> on two columns without missing values, one point per group
  (\<open>Quantidade_Alunos\<close>, \<open>Media_...\<close>): the sum of the products of the deviations
  over the square root of the product of the two sums of squared deviations, clipped
  to \<open>[-1, 1]\<close> as pandas does against rounding errors, and NaN (\<open>None\<close>) when that
  divisor is zero.
\<close>

definition pearson :: "(real \<times> real) list \<Rightarrow> real option" where
  "pearson pts =
     (let xs = map fst pts; ys = map snd pts;
          mx = mean xs; my = mean ys;
          covxy = sum_list (map (\<lambda>(x, y). (x - mx) * (y - my)) pts);
          ssx = sum_list (map (\<lambda>x. (x - mx)\<^sup>2) xs);
          ssy = sum_list (map (\<lambda>y. (y - my)\<^sup>2) ys);
          divisor = sqrt (ssx * ssy)
      in if divisor = 0 then None else Some (max (- 1) (min 1 (covxy / divisor))))"

text \<open>\<open>corr_matrix = data_corr.corr().round(3)\<close>\<close>

definition correlacao :: "(real \<times> real) list \<Rightarrow> real option" where
  "correlacao pts = map_option (round_dec 3) (pearson pts)"

definition Correlacao :: string where
  "Correlacao = ''Correla'' @ [CHR 0xE7, CHR 0xE3] @ ''o''"

definition interpretar_correlacao_detalhada :: "real \<Rightarrow> string" where
  "interpretar_correlacao_detalhada r =
     (if r \<ge> 7 / 10 then Correlacao @ '' positiva forte: escolas com mais alunos tendem a ter desempenho significativamente melhor''
      else if r \<ge> 5 / 10 then Correlacao @ '' positiva moderada: existe uma rela'' @ [CHR 0xE7, CHR 0xE3] @ ''o positiva entre tamanho da escola e desempenho''
      else if r \<ge> 3 / 10 then Correlacao @ '' positiva fraca: leve tend'' @ [CHR 0xEA] @ ''ncia de escolas maiores terem melhor desempenho''
      else if r > - (3 / 10) then Correlacao @ '' muito fraca ou nula: praticamente n'' @ [CHR 0xE3] @ ''o h'' @ [CHR 0xE1] @ '' rela'' @ [CHR 0xE7, CHR 0xE3] @ ''o entre tamanho da escola e desempenho''
      else if r > - (5 / 10) then Correlacao @ '' negativa fraca: leve tend'' @ [CHR 0xEA] @ ''ncia de escolas menores terem melhor desempenho''
      else if r > - (7 / 10) then Correlacao @ '' negativa moderada: escolas menores tendem a ter melhor desempenho''
      else Correlacao @ '' negativa forte: escolas com menos alunos tendem a ter desempenho significativamente melhor'')"

definition interpretar_correlacao_simples :: "real \<Rightarrow> string" where
  "interpretar_correlacao_simples r =
     (if r \<ge> 7 / 10 then Correlacao @ '' positiva forte''
      else if r \<ge> 5 / 10 then Correlacao @ '' positiva moderada''
      else if r \<ge> 3 / 10 then Correlacao @ '' positiva fraca''
      else if r > - (3 / 10) then Correlacao @ '' muito fraca ou nula''
      else if r > - (5 / 10) then Correlacao @ '' negativa fraca''
      else if r > - (7 / 10) then Correlacao @ '' negativa moderada''
      else Correlacao @ '' negativa forte'')"

definition classificar_forca_correlacao :: "real \<Rightarrow> string" where
  "classificar_forca_correlacao r =
     (let abs_r = \<bar>r\<bar>
      in if abs_r \<ge> 7 / 10 then ''Forte''
         else if abs_r \<ge> 5 / 10 then ''Moderada''
         else if abs_r \<ge> 3 / 10 then ''Fraca''
         else ''Muito Fraca'')"

section \<open>Facts about the resolver\<close>

lemma str_in_iff_sublist: "str_in k s \<longleftrightarrow> sublist k s"
  by (induction s) (auto simp: sublist_Cons_right)

lemma keyword_loop_iff:
  "keyword_loop kws col_lower \<longleftrightarrow> (\<exists>k \<in> set kws. sublist (lower k) col_lower)"
  by (induction kws) (auto simp: str_in_iff_sublist)

lemma column_loop_filter:
  "column_loop cols kws found =
     found @ filter (\<lambda>col. keyword_loop kws (lower col)) cols"
  by (induction cols arbitrary: found) auto

lemma find_similar_columns_filter:
  "find_similar_columns data kws =
     filter (\<lambda>col. \<exists>k \<in> set kws. sublist (lower k) (lower col)) (columns data)"
  by (simp add: find_similar_columns_def column_loop_filter keyword_loop_iff)

lemma first_found_filter: "first_found (filter P xs) = find P xs"
  by (induction xs) (auto simp: first_found_def)

lemma spec_resolve_first:
  "spec_resolve cols kws = Some c \<longleftrightarrow>
     (\<exists>i < length cols. c = cols ! i \<and> spec_matches kws (cols ! i) \<and>
        (\<forall>j < i. \<not> spec_matches kws (cols ! j)))"
  unfolding spec_resolve_def find_Some_iff by auto

lemma first_found_find:
  "first_found (find_similar_columns data kws) =
     find (\<lambda>col. \<exists>k \<in> set kws. sublist (lower k) (lower col)) (columns data)"
  by (simp add: find_similar_columns_filter first_found_filter)

lemma first_found_spec_resolve:
  assumes "\<forall>k \<in> set kws. lower k = k"
  shows "first_found (find_similar_columns data kws) = spec_resolve (columns data) kws"
proof -
  have "(\<lambda>col. \<exists>k \<in> set kws. sublist (lower k) (lower col)) = spec_matches kws"
    using assms by (auto simp: spec_matches_def fun_eq_iff)
  then show ?thesis
    by (simp add: first_found_find spec_resolve_def)
qed

lemmas resolver_eval =
  select_columns_def find_similar_columns_def first_found_def lower_def lower_char_def char_of_def
  bit_0

text \<open>
  C2. The program lowercases the keyword as well as the column name; on the lowercase
  keyword sets of the specification that changes nothing, and then, for every ordered
  list of column names and every keyword list of a role, the first found column is the
  first column in original order whose lowercased name contains one of the keywords,
  and there is none when no column matches. The columns
  \<open>["Qual a sua escola?", "Total de pontos"]\<close> resolve to the first for the
  keyword \<open>escola\<close> and to the second for the keywords \<open>total\<close>, \<open>pontos\<close>.
\<close>

theorem resolver_first_match:
  "first_found (find_similar_columns data kws) =
     find (\<lambda>col. \<exists>k \<in> set kws. sublist (lower k) (lower col)) (columns data)
   \<and> ((\<forall>k \<in> set kws. lower k = k) \<longrightarrow>
        first_found (find_similar_columns data kws) = spec_resolve (columns data) kws
      \<and> (\<forall>i < length (columns data).
           spec_matches kws (columns data ! i) \<and>
           (\<forall>j < i. \<not> spec_matches kws (columns data ! j)) \<longrightarrow>
           first_found (find_similar_columns data kws) = Some (columns data ! i))
      \<and> ((\<forall>col \<in> set (columns data). \<not> spec_matches kws col) \<longrightarrow>
           first_found (find_similar_columns data kws) = None))
   \<and> first_found (find_similar_columns
        \<lparr>columns = [''Qual a sua escola?'', ''Total de pontos''], dtypes = d, rows = rs\<rparr>
        [''escola'']) = Some ''Qual a sua escola?''
   \<and> first_found (find_similar_columns
        \<lparr>columns = [''Qual a sua escola?'', ''Total de pontos''], dtypes = d, rows = rs\<rparr>
        [''total'', ''pontos'']) = Some ''Total de pontos''
   \<and> select_columns
        \<lparr>columns = [''Qual a sua escola?'', ''Total de pontos''], dtypes = d, rows = rs\<rparr>
        [''total'', ''pontos''] [''escola''] = Some (''Total de pontos'', ''Qual a sua escola?'')"
proof (intro conjI impI)
  show "first_found (find_similar_columns data kws) =
     find (\<lambda>col. \<exists>k \<in> set kws. sublist (lower k) (lower col)) (columns data)"
    by (rule first_found_find)
next
  assume "\<forall>k \<in> set kws. lower k = k"
  then show "first_found (find_similar_columns data kws) = spec_resolve (columns data) kws"
    by (rule first_found_spec_resolve)
next
  assume "\<forall>k \<in> set kws. lower k = k"
  then have "first_found (find_similar_columns data kws) = spec_resolve (columns data) kws"
    by (rule first_found_spec_resolve)
  then show "\<forall>i < length (columns data).
           spec_matches kws (columns data ! i) \<and>
           (\<forall>j < i. \<not> spec_matches kws (columns data ! j)) \<longrightarrow>
           first_found (find_similar_columns data kws) = Some (columns data ! i)"
    using spec_resolve_first by auto
next
  assume "\<forall>k \<in> set kws. lower k = k"
    and "\<forall>col \<in> set (columns data). \<not> spec_matches kws col"
  then show "first_found (find_similar_columns data kws) = None"
    using first_found_spec_resolve [of kws data] by (auto simp: spec_resolve_def find_None_iff)
qed (simp_all add: resolver_eval)

theorem resolver_first_match_witness:
  "map lower escola_keywords = escola_keywords
   \<and> spec_matches escola_keywords ''ESCOLA Municipal''
   \<and> \<not> spec_matches escola_keywords ''Nome''
   \<and> first_found (find_similar_columns
        \<lparr>columns = [''Nome'', ''ESCOLA Municipal'', ''Escola 2''], dtypes = (\<lambda>_. Object), rows = []\<rparr>
        escola_keywords) = Some ''ESCOLA Municipal''
   \<and> \<not> spec_matches escola_keywords ''Idade''
   \<and> first_found (find_similar_columns
        \<lparr>columns = [''Nome'', ''Idade''], dtypes = (\<lambda>_. Object), rows = []\<rparr>
        escola_keywords) = None"
proof -
  let ?F = "\<lparr>columns = [''Nome'', ''ESCOLA Municipal'', ''Escola 2''], dtypes = (\<lambda>_. Object), rows = []\<rparr>"
  let ?G = "\<lparr>columns = [''Nome'', ''Idade''], dtypes = (\<lambda>_. Object), rows = []\<rparr>"
  have low': "map lower escola_keywords = escola_keywords"
    by (simp add: escola_keywords_def lower_def lower_char_def)
  have low: "\<forall>k \<in> set escola_keywords. lower k = k"
    by (simp add: escola_keywords_def lower_def lower_char_def)
  have m1: "spec_matches escola_keywords ''ESCOLA Municipal''"
    by (simp add: spec_matches_def escola_keywords_def lower_def lower_char_def char_of_def bit_0
        flip: str_in_iff_sublist)
  have m0: "\<not> spec_matches escola_keywords ''Nome''"
    by (simp add: spec_matches_def escola_keywords_def lower_def lower_char_def char_of_def bit_0
        flip: str_in_iff_sublist)
  have m2: "\<not> spec_matches escola_keywords ''Idade''"
    by (simp add: spec_matches_def escola_keywords_def lower_def lower_char_def char_of_def bit_0
        flip: str_in_iff_sublist)
  from low resolver_first_match [of ?F escola_keywords]
  have "\<forall>i < length (columns ?F).
           spec_matches escola_keywords (columns ?F ! i) \<and>
           (\<forall>j < i. \<not> spec_matches escola_keywords (columns ?F ! j)) \<longrightarrow>
           first_found (find_similar_columns ?F escola_keywords) = Some (columns ?F ! i)"
    by blast
  from this [rule_format, of 1] m1 m0
  have a: "first_found (find_similar_columns ?F escola_keywords) = Some ''ESCOLA Municipal''"
    by simp
  from low resolver_first_match [of ?G escola_keywords]
  have "(\<forall>col \<in> set (columns ?G). \<not> spec_matches escola_keywords col) \<longrightarrow>
           first_found (find_similar_columns ?G escola_keywords) = None"
    by blast
  with m0 m2 have b: "first_found (find_similar_columns ?G escola_keywords) = None"
    by simp
  from low' m1 m0 a m2 b show ?thesis by blast
qed

lemma count_list_filter_le: "count_list (filter P xs) c \<le> count_list xs c"
  by (induction xs) auto

text \<open>
  C10. For every frame and keyword list, the returned list is a subsequence of the
  frame's columns: the matching columns come in the original column order, and no
  column is listed more often than it occurs among the columns, so that each column
  name is listed at most once (the column names of a frame read from a file are
  distinct), also when several keywords match the same column.
\<close>

theorem find_similar_columns_once_in_order:
  "subseq (find_similar_columns data kws) (columns data)
   \<and> (\<forall>c. count_list (find_similar_columns data kws) c \<le> count_list (columns data) c)
   \<and> (distinct (columns data) \<longrightarrow> distinct (find_similar_columns data kws))
   \<and> find_similar_columns data kws =
       filter (\<lambda>col. \<exists>k \<in> set kws. sublist (lower k) (lower col)) (columns data)"
  by (simp add: find_similar_columns_filter count_list_filter_le)

theorem find_similar_columns_once_in_order_witness:
  "distinct [''Total de Pontos'', ''Nome'', ''Nota final'']
   \<and> find_similar_columns
       \<lparr>columns = [''Total de Pontos'', ''Nome'', ''Nota final''], dtypes = (\<lambda>_. Object), rows = []\<rparr>
       pontos_keywords = [''Total de Pontos'', ''Nota final'']
   \<and> distinct (find_similar_columns
       \<lparr>columns = [''Total de Pontos'', ''Nome'', ''Nota final''], dtypes = (\<lambda>_. Object), rows = []\<rparr>
       pontos_keywords)"
proof -
  have d: "distinct [''Total de Pontos'', ''Nome'', ''Nota final'']"
    by simp
  have e: "find_similar_columns
       \<lparr>columns = [''Total de Pontos'', ''Nome'', ''Nota final''], dtypes = (\<lambda>_. Object), rows = []\<rparr>
       pontos_keywords = [''Total de Pontos'', ''Nota final'']"
    by (simp add: pontos_keywords_def resolver_eval)
  from d
    find_similar_columns_once_in_order [of
      "\<lparr>columns = [''Total de Pontos'', ''Nome'', ''Nota final''], dtypes = (\<lambda>_. Object), rows = []\<rparr>"
      pontos_keywords]
  have "distinct (find_similar_columns
       \<lparr>columns = [''Total de Pontos'', ''Nome'', ''Nota final''], dtypes = (\<lambda>_. Object), rows = []\<rparr>
       pontos_keywords)"
    by simp
  with d e show ?thesis by blast
qed

section \<open>Facts about the correlation\<close>

lemma mean_affine:
  assumes "ys \<noteq> []"
  shows "mean (map (\<lambda>y. a * y + b) ys) = a * mean ys + b"
proof -
  have "sum_list (map (\<lambda>y. a * y + b) ys) = a * sum_list ys + real (length ys) * b"
    by (induction ys) (simp_all add: algebra_simps)
  moreover have "real (length ys) \<noteq> 0"
    using assms by simp
  ultimately show ?thesis
    by (simp add: mean_def field_simps)
qed

text \<open>
  In exact arithmetic the coefficient does not change when the second coordinates are
  rescaled by \<open>m \<mapsto> a * m + b\<close> with \<open>a > 0\<close>. The float64 kernel of pandas rounds
  and overflows, which \<open>pearson\<close> does not express, so this is a fact about the
  formula, not about the doubles the program computes.
\<close>

lemma pearson_rescale:
  assumes "0 < a"
  shows "pearson (map (\<lambda>p. (fst p, a * snd p + b)) pts) = pearson pts"
proof (cases "pts = []")
  case True
  then show ?thesis by simp
next
  case False
  define pts' where "pts' = map (\<lambda>p. (fst p, a * snd p + b)) pts"
  define mx where "mx = mean (map fst pts)"
  define my where "my = mean (map snd pts)"
  define cov where "cov = sum_list (map (\<lambda>(x, y). (x - mx) * (y - my)) pts)"
  define ssx where "ssx = sum_list (map (\<lambda>x. (x - mx)\<^sup>2) (map fst pts))"
  define ssy where "ssy = sum_list (map (\<lambda>y. (y - my)\<^sup>2) (map snd pts))"
  have fst': "map fst pts' = map fst pts"
    by (simp add: pts'_def comp_def)
  have snd': "map snd pts' = map (\<lambda>y. a * y + b) (map snd pts)"
    by (simp add: pts'_def comp_def)
  have my': "mean (map snd pts') = a * my + b"
    unfolding snd' my_def using False by (intro mean_affine) simp
  have cov': "sum_list (map (\<lambda>(x, y). (x - mx) * (y - (a * my + b))) pts') = a * cov"
    unfolding cov_def pts'_def
    by (induction pts) (auto simp: algebra_simps)
  have ssy': "sum_list (map (\<lambda>y. (y - (a * my + b))\<^sup>2) (map (\<lambda>y. a * y + b) (map snd pts)))
      = a\<^sup>2 * ssy"
    unfolding ssy_def
    by (induction pts) (auto simp: algebra_simps power2_eq_square)
  have div': "sqrt (ssx * (a\<^sup>2 * ssy)) = a * sqrt (ssx * ssy)"
    using assms by (simp add: real_sqrt_mult mult_ac)
  have p: "pearson pts =
      (if sqrt (ssx * ssy) = 0 then None else Some (max (- 1) (min 1 (cov / sqrt (ssx * ssy)))))"
    by (simp add: pearson_def Let_def mx_def my_def cov_def ssx_def ssy_def)
  have "pearson pts' =
      (if a * sqrt (ssx * ssy) = 0 then None
       else Some (max (- 1) (min 1 (a * cov / (a * sqrt (ssx * ssy))))))"
    unfolding pearson_def Let_def fst' my'
    unfolding snd' mx_def[symmetric] cov' ssy' ssx_def[symmetric] div'
    by simp
  also have "\<dots> = pearson pts"
    using assms by (simp add: p)
  finally show ?thesis
    by (simp add: pts'_def)
qed

lemma sqrt_400: "sqrt 400 = 20"
  using real_sqrt_abs [of 20] by simp

lemma pearson_scenario: "pearson [(10, 5), (20, 6), (30, 7)] = Some 1"
  by (simp add: pearson_def mean_def Let_def sqrt_400)

lemma rint_of_int: "rint (of_int n) = n"
  by (simp add: rint_def)

lemma round_dec_3_one: "round_dec 3 1 = 1"
  using rint_of_int [of 1000] by (simp add: round_dec_def)

lemma correlacao_scenario: "correlacao [(10, 5), (20, 6), (30, 7)] = Some 1"
  by (simp add: correlacao_def pearson_scenario round_dec_3_one)

text \<open>
  C7. For every real \<open>r\<close> (so for every \<open>r\<close> in \<open>[-1, 1]\<close>) the strength
  classification returns \<open>Forte\<close> (strong) iff \<open>|r| \<ge> 0.7\<close>, \<open>Moderada\<close>
  (moderate) iff \<open>0.5 \<le> |r| < 0.7\<close>, \<open>Fraca\<close> (weak) iff \<open>0.3 \<le> |r| < 0.5\<close>
  and \<open>Muito Fraca\<close> (negligible) iff \<open>|r| < 0.3\<close>. The group sizes
  \<open>[10, 20, 30]\<close> with the metric means \<open>[5, 6, 7]\<close> have the Pearson coefficient
  1, which is classified as strong, and interpreted as a strong positive correlation.
\<close>

theorem classificar_forca_thresholds:
  "(classificar_forca_correlacao r = ''Forte'') = (7 / 10 \<le> \<bar>r\<bar>)
   \<and> (classificar_forca_correlacao r = ''Moderada'') = (5 / 10 \<le> \<bar>r\<bar> \<and> \<bar>r\<bar> < 7 / 10)
   \<and> (classificar_forca_correlacao r = ''Fraca'') = (3 / 10 \<le> \<bar>r\<bar> \<and> \<bar>r\<bar> < 5 / 10)
   \<and> (classificar_forca_correlacao r = ''Muito Fraca'') = (\<bar>r\<bar> < 3 / 10)
   \<and> pearson [(10, 5), (20, 6), (30, 7)] = Some 1
   \<and> correlacao [(10, 5), (20, 6), (30, 7)] = Some 1
   \<and> map_option classificar_forca_correlacao (correlacao [(10, 5), (20, 6), (30, 7)])
       = Some ''Forte''
   \<and> map_option interpretar_correlacao_simples (correlacao [(10, 5), (20, 6), (30, 7)])
       = Some (Correlacao @ '' positiva forte'')"
  by (simp add: classificar_forca_correlacao_def interpretar_correlacao_simples_def Let_def
      pearson_scenario correlacao_scenario)

text \<open>
  C8. For every real \<open>r\<close> with \<open>-0.3 < r < 0.3\<close> both interpretations report a
  very weak or absent correlation (\<open>muito fraca ou nula\<close>), whatever the sign of
  \<open>r\<close>; outside that band they report a positive correlation when \<open>r > 0\<close> and a
  negative one otherwise.
\<close>

theorem interpretar_correlacao_band:
  "(- (3 / 10) < r \<and> r < 3 / 10 \<longrightarrow>
      interpretar_correlacao_simples r = Correlacao @ '' muito fraca ou nula''
    \<and> prefix (Correlacao @ '' muito fraca ou nula'') (interpretar_correlacao_detalhada r))
   \<and> (\<not> (- (3 / 10) < r \<and> r < 3 / 10) \<longrightarrow>
       prefix (Correlacao @ (if 0 < r then '' positiva'' else '' negativa''))
         (interpretar_correlacao_simples r)
     \<and> prefix (Correlacao @ (if 0 < r then '' positiva'' else '' negativa''))
         (interpretar_correlacao_detalhada r))"
  by (simp add: interpretar_correlacao_simples_def interpretar_correlacao_detalhada_def)

theorem interpretar_correlacao_band_witness:
  "interpretar_correlacao_simples (1 / 10) = Correlacao @ '' muito fraca ou nula''
   \<and> interpretar_correlacao_simples (- (1 / 10)) = Correlacao @ '' muito fraca ou nula''
   \<and> prefix (Correlacao @ '' muito fraca ou nula'') (interpretar_correlacao_detalhada (- (1 / 10)))
   \<and> prefix (Correlacao @ '' positiva'') (interpretar_correlacao_simples (3 / 10))
   \<and> prefix (Correlacao @ '' negativa'') (interpretar_correlacao_simples (- (3 / 10)))
   \<and> prefix (Correlacao @ '' negativa'') (interpretar_correlacao_detalhada (- (6 / 10)))"
  using interpretar_correlacao_band [of "1 / 10"] interpretar_correlacao_band [of "- (1 / 10)"]
    interpretar_correlacao_band [of "3 / 10"] interpretar_correlacao_band [of "- (3 / 10)"]
    interpretar_correlacao_band [of "- (6 / 10)"]
  by simp

section \<open>Facts about the grouped statistics\<close>

lemma float64_le_simps [simp]:
  "Fin x \<le> Fin y \<longleftrightarrow> x \<le> y"
  "NInf \<le> b"
  "a \<le> PInf"
  "PInf \<le> Fin y \<longleftrightarrow> False"
  "PInf \<le> NInf \<longleftrightarrow> False"
  "Fin x \<le> NInf \<longleftrightarrow> False"
  by (auto simp: less_eq_float64_def split: float64.splits)

lemma float64_less_simps [simp]:
  "Fin x < Fin y \<longleftrightarrow> x < y"
  "NInf < Fin y"
  "Fin x < PInf"
  "NInf < PInf"
  "a < NInf \<longleftrightarrow> False"
  "PInf < b \<longleftrightarrow> False"
  by (auto simp: less_float64_def less_eq_float64_def split: float64.splits)

















lemma rint_numeral: "rint (numeral n) = numeral n"
  using rint_of_int [of "numeral n"] by simp

lemma sqrt_100: "sqrt 100 = 10"
  using real_sqrt_abs [of 10] by simp

lemmas stats_eval =
  estatisticas_escolas_def groupby_def agg_def Let_def mean_def std_def
  group_mean_def group_median_def group_std_def finite_values_def
  round_dec_def rint_numeral

lemma estatisticas_scenario:
  "estatisticas_escolas [(''A'', Fin 10), (''A'', Fin 20), (''A'', Fin 30), (''B'', Fin 5)] =
    [\<lparr>Escola = ''A'', Media = Some (Fin 20), Mediana = Some (Fin 20), Minimo = Fin 10,
       Maximo = Fin 30, Desvio_Padrao = Some (Fin 10), Quantidade_Alunos = 3\<rparr>,
     \<lparr>Escola = ''B'', Media = Some (Fin 5), Mediana = Some (Fin 5), Minimo = Fin 5,
       Maximo = Fin 5, Desvio_Padrao = None, Quantidade_Alunos = 1\<rparr>]"
  by (simp add: stats_eval sqrt_100)










lemma view_fields:
  "exported (school_statistics_view c data m e) = estatisticas_escolas_reset c data"
  "header (displayed (school_statistics_view c data m e)) = stats_columns c"
  "header (exported (school_statistics_view c data m e)) = stats_columns c"
  "records (exported (school_statistics_view c data m e)) = estatisticas_escolas data"
  "records (displayed (school_statistics_view c data m e)) =
     filter (\<lambda>r. m \<le> Quantidade_Alunos r \<and> (if e \<noteq> [] then Escola r \<in> set e else True))
       (estatisticas_escolas data)"
  by (simp_all add: school_statistics_view_def estatisticas_filtradas_def
      estatisticas_escolas_reset_def Let_def)

text \<open>
  C1 (as amended). In the per-school statistics view the export is the unfiltered
  statistics table, under the table's column labels, for every setting of the
  minimum-count filter and of the allow-list; the displayed table has the same labels
  and is the exported table restricted to the rows that pass the filters, so the two
  are equal exactly when every row passes.
\<close>

theorem export_is_unfiltered:
  "exported (school_statistics_view c data m e) = estatisticas_escolas_reset c data
   \<and> header (exported (school_statistics_view c data m e)) = stats_columns c
   \<and> header (displayed (school_statistics_view c data m e)) = stats_columns c
   \<and> records (displayed (school_statistics_view c data m e)) =
       filter (\<lambda>r. m \<le> Quantidade_Alunos r \<and> (if e \<noteq> [] then Escola r \<in> set e else True))
         (records (exported (school_statistics_view c data m e)))
   \<and> (exported (school_statistics_view c data m e) = displayed (school_statistics_view c data m e)
       \<longleftrightarrow> (\<forall>r \<in> set (estatisticas_escolas data).
              m \<le> Quantidade_Alunos r \<and> (if e \<noteq> [] then Escola r \<in> set e else True)))"
proof (intro conjI)
  let ?v = "school_statistics_view c data m e"
  let ?P = "\<lambda>r. m \<le> Quantidade_Alunos r \<and> (if e \<noteq> [] then Escola r \<in> set e else True)"
  show "exported ?v = estatisticas_escolas_reset c data"
    by (rule view_fields(1))
  show "header (exported ?v) = stats_columns c"
    by (rule view_fields(3))
  show "header (displayed ?v) = stats_columns c"
    by (rule view_fields(2))
  show "records (displayed ?v) = filter ?P (records (exported ?v))"
    unfolding view_fields(4) by (rule view_fields(5))
  have "exported ?v = displayed ?v \<longleftrightarrow> records (exported ?v) = records (displayed ?v)"
    by (auto simp: school_statistics_view_def estatisticas_filtradas_def Let_def
        estatisticas_escolas_reset_def)
  also have "\<dots> \<longleftrightarrow> filter ?P (estatisticas_escolas data) = estatisticas_escolas data"
    unfolding view_fields(4,5) by (rule eq_commute)
  also have "\<dots> \<longleftrightarrow> (\<forall>r \<in> set (estatisticas_escolas data). ?P r)"
    by (rule filter_id_conv)
  finally show "exported ?v = displayed ?v \<longleftrightarrow> (\<forall>r \<in> set (estatisticas_escolas data). ?P r)" .
qed

text \<open>
  C1 as stated fails: with the minimum count 2 and an empty allow-list, group B (one
  row) is displayed no more but is still exported.
\<close>

theorem export_not_displayed:
  "exported (school_statistics_view ''Escola'' [(''A'', Fin 10), (''A'', Fin 20), (''A'', Fin 30), (''B'', Fin 5)] 2 [])
   \<noteq> displayed (school_statistics_view ''Escola'' [(''A'', Fin 10), (''A'', Fin 20), (''A'', Fin 30), (''B'', Fin 5)] 2 [])"
  by (simp add: school_statistics_view_def estatisticas_filtradas_def Let_def
        estatisticas_escolas_reset_def estatisticas_scenario)

theorem export_is_unfiltered_witness:
  "exported (school_statistics_view ''Escola'' [(''A'', Fin 10), (''A'', Fin 20), (''A'', Fin 30), (''B'', Fin 5)] 1 [])
   = displayed (school_statistics_view ''Escola'' [(''A'', Fin 10), (''A'', Fin 20), (''A'', Fin 30), (''B'', Fin 5)] 1 [])
   \<and> map Escola (records (displayed
       (school_statistics_view ''Escola'' [(''A'', Fin 10), (''A'', Fin 20), (''A'', Fin 30), (''B'', Fin 5)] 2 [''A'', ''B''])))
     = [''A'']
   \<and> map Escola (records (exported
       (school_statistics_view ''Escola'' [(''A'', Fin 10), (''A'', Fin 20), (''A'', Fin 30), (''B'', Fin 5)] 2 [''A'', ''B''])))
     = [''A'', ''B'']"
  using export_is_unfiltered [of "''Escola''" "[(''A'', Fin 10), (''A'', Fin 20), (''A'', Fin 30), (''B'', Fin 5)]" 1 "[]"]
    export_is_unfiltered [of "''Escola''" "[(''A'', Fin 10), (''A'', Fin 20), (''A'', Fin 30), (''B'', Fin 5)]" 2 "[''A'', ''B'']"]
  by (simp add: estatisticas_scenario estatisticas_escolas_reset_def)

section \<open>Facts about the cleaning step\<close>

lemma getitem_Inr_iff:
  "getitem data cols = Inr df \<longleftrightarrow> set cols \<subseteq> set (columns data) \<and> df = data\<lparr>columns := cols\<rparr>"
  by (auto simp: getitem_def)

lemma convert_column_Inr:
  assumes "convert_column parse df col = Inr df'"
  shows "columns df' = columns df"
    and "count_list (columns df) col = 1"
    and "dtypes df' = (dtypes df)(col := Numeric)"
    and "rows df' = map (\<lambda>r. r(col := (if dtypes df col = Object then to_numeric parse (r col) else r col))) (rows df)"
proof -
  from assms have c: "col \<in> set (columns df)" "count_list (columns df) col = 1"
    by (auto simp: convert_column_def split: if_splits)
  then show "count_list (columns df) col = 1" by simp
  show "columns df' = columns df"
    using assms c by (auto simp: convert_column_def split: if_splits)
  show "dtypes df' = (dtypes df)(col := Numeric)"
  proof (cases "dtypes df col")
    case Object
    with assms c show ?thesis by (auto simp: convert_column_def)
  next
    case Numeric
    with assms c have "df' = df" by (auto simp: convert_column_def)
    with Numeric show ?thesis by auto
  qed
  show "rows df' = map (\<lambda>r. r(col := (if dtypes df col = Object then to_numeric parse (r col) else r col))) (rows df)"
    using assms c by (auto simp: convert_column_def split: if_splits)
qed

lemma convert_column_ok:
  assumes "count_list (columns df) col = 1"
  shows "\<exists>df'. convert_column parse df col = Inr df'"
proof -
  from assms have "col \<in> set (columns df)"
    by (metis count_list_0_iff zero_neq_one)
  with assms show ?thesis
    by (simp add: convert_column_def)
qed

lemma convert_columns_ok:
  assumes "\<forall>c \<in> set cols. count_list (columns df) c = 1"
  shows "\<exists>df'. convert_columns parse df cols = Inr df'"
  using assms
proof (induction cols arbitrary: df)
  case Nil
  then show ?case by simp
next
  case (Cons col cols)
  then obtain df1 where 1: "convert_column parse df col = Inr df1"
    using convert_column_ok [of df col parse] by auto
  with Cons.prems have "\<forall>c \<in> set cols. count_list (columns df1) c = 1"
    by (simp add: convert_column_Inr(1))
  from Cons.IH [OF this] 1 show ?case by simp
qed

lemma convert_columns_Inr:
  assumes "convert_columns parse df cols = Inr df'"
  shows "columns df' = columns df
    \<and> (\<forall>c \<in> set cols. count_list (columns df) c = 1)
    \<and> rows df' = map (\<lambda>r c. if c \<in> set cols \<and> dtypes df c = Object
                                then to_numeric parse (r c) else r c) (rows df)"
  using assms
proof (induction cols arbitrary: df)
  case Nil
  then show ?case by simp
next
  case (Cons col cols)
  then obtain df1 where 1: "convert_column parse df col = Inr df1"
    and 2: "convert_columns parse df1 cols = Inr df'"
    by (auto split: sum.splits)
  note c = convert_column_Inr [OF 1]
  note ih = Cons.IH [OF 2]
  have "(\<lambda>r c. if c \<in> set cols \<and> dtypes df1 c = Object then to_numeric parse (r c) else r c)
          \<circ> (\<lambda>r. r(col := (if dtypes df col = Object then to_numeric parse (r col) else r col)))
      = (\<lambda>r c. if c \<in> set (col # cols) \<and> dtypes df c = Object then to_numeric parse (r c) else r c)"
    by (auto simp: fun_eq_iff c(3))
  with ih c show ?case
    by simp
qed

lemma count_list_distinct:
  "distinct xs \<Longrightarrow> x \<in> set xs \<Longrightarrow> count_list xs x = 1"
  by (induction xs) auto

lemma length_dropna: "length (rows (dropna df)) \<le> length (rows df)"
  by (simp add: dropna_def)

lemmas clean_eval =
  clean_def getitem_def convert_column_def dropna_def to_numeric_def column_values_def Let_def

text \<open>
  When the grouping column and the metric columns are columns of the frame and no
  column is named twice, the cleaning step raises nothing: under every metric column
  of dtype object each cell is replaced by its numeric reading, a string that does not
  parse becoming the missing marker; the cleaned frame is the converted frame without
  the rows that have a missing cell; and the reported counts satisfy
  rows_after + rows_removed = rows_before.
\<close>

lemma clean_total:
  assumes "set (g # ms) \<subseteq> set (columns data)" and "distinct (g # ms)"
  shows "\<exists>res. clean parse data g ms = Inr res
     \<and> columns (data_analysis res) = g # ms
     \<and> rows (data_analysis res) =
         map (\<lambda>r c. if c \<in> set ms \<and> dtypes data c = Object then to_numeric parse (r c) else r c)
           (rows data)
     \<and> (\<forall>m \<in> set ms. dtypes data m = Object \<longrightarrow>
           column_values (data_analysis res) m = map (to_numeric parse) (column_values data m))
     \<and> (\<forall>s. parse s = None \<longrightarrow> to_numeric parse (Str s) = NaN)
     \<and> data_clean res = dropna (data_analysis res)
     \<and> initial_count res = int (length (rows data))
     \<and> final_count res = int (length (rows (data_clean res)))
     \<and> final_count res + removed_count res = initial_count res
     \<and> 0 \<le> removed_count res
     \<and> removed_count res =
         int (length (filter (\<lambda>r. \<exists>c \<in> set (g # ms). r c = NaN) (rows (data_analysis res))))"
proof -
  define sel where "sel = data\<lparr>columns := g # ms\<rparr>"
  have gi: "getitem data (g # ms) = Inr sel"
    using assms(1) by (simp add: getitem_def sel_def)
  have "\<forall>c \<in> set ms. count_list (columns sel) c = 1"
    using assms(2) count_list_distinct [of "g # ms"] by (auto simp: sel_def)
  from convert_columns_ok [OF this] obtain conv
    where cv: "convert_columns parse sel ms = Inr conv" by blast
  note ci = convert_columns_Inr [OF cv]
  define res where "res = \<lparr>data_analysis = conv, data_clean = dropna conv,
      initial_count = int (length (rows conv)), final_count = int (length (rows (dropna conv))),
      removed_count = int (length (rows conv)) - int (length (rows (dropna conv)))\<rparr>"
  have r: "clean parse data g ms = Inr res"
    by (simp add: clean_def gi cv Let_def res_def)
  have rw: "rows conv =
         map (\<lambda>r c. if c \<in> set ms \<and> dtypes data c = Object then to_numeric parse (r c) else r c)
           (rows data)"
    using ci by (simp add: sel_def)
  have len: "length (rows conv) = length (rows data)"
    by (simp add: rw)
  have cols: "columns conv = g # ms"
    using ci by (simp add: sel_def)
  have "length (rows conv) =
      length (filter (\<lambda>r. \<forall>c \<in> set (g # ms). r c \<noteq> NaN) (rows conv))
      + length (filter (\<lambda>r. \<not> (\<forall>c \<in> set (g # ms). r c \<noteq> NaN)) (rows conv))"
    by (rule sum_length_filter_compl [symmetric])
  then have rem: "int (length (rows conv)) - int (length (rows (dropna conv))) =
      int (length (filter (\<lambda>r. \<exists>c \<in> set (g # ms). r c = NaN) (rows conv)))"
    by (simp add: dropna_def cols)
  show ?thesis
  proof (intro exI [of _ res] conjI ballI allI impI)
    show "clean parse data g ms = Inr res" by (rule r)
    show "columns (data_analysis res) = g # ms" by (simp add: res_def cols)
    show "rows (data_analysis res) =
         map (\<lambda>r c. if c \<in> set ms \<and> dtypes data c = Object then to_numeric parse (r c) else r c)
           (rows data)"
      by (simp add: res_def rw)
    show "column_values (data_analysis res) m = map (to_numeric parse) (column_values data m)"
      if "m \<in> set ms" "dtypes data m = Object" for m
      using that by (simp add: column_values_def res_def rw)
    show "to_numeric parse (Str s) = NaN" if "parse s = None" for s
      using that by (simp add: to_numeric_def)
    show "data_clean res = dropna (data_analysis res)" by (simp add: res_def)
    show "initial_count res = int (length (rows data))" by (simp add: res_def len)
    show "final_count res = int (length (rows (data_clean res)))" by (simp add: res_def)
    show "final_count res + removed_count res = initial_count res" by (simp add: res_def)
    show "0 \<le> removed_count res"
      using length_dropna [of conv] by (simp add: res_def)
    show "removed_count res =
         int (length (filter (\<lambda>r. \<exists>c \<in> set (g # ms). r c = NaN) (rows (data_analysis res))))"
      using rem by (simp add: res_def)
  qed
qed

text \<open>
  C3. The cleaning step is meant never to raise, but it does when the grouping column
  is also the metric column: the column is selected twice, and reading its dtype then
  raises \<open>AttributeError\<close>, before the \<open>try\<close> of \<open>school_statistics\<close>. The
  automatic choice of \<open>school_statistics\<close> arrives there on a frame whose column name
  contains a keyword of both roles.
\<close>

theorem clean_raises_on_shared_column:
  "clean (\<lambda>s. None)
     \<lparr>columns = [''Nota da escola''], dtypes = (\<lambda>c. Numeric), rows = [\<lambda>c. Num (Fin 7)]\<rparr>
     ''Nota da escola'' [''Nota da escola''] = Inl AttributeError
   \<and> school_statistics_clean (\<lambda>s. None)
     \<lparr>columns = [''Nota da escola''], dtypes = (\<lambda>c. Numeric), rows = [\<lambda>c. Num (Fin 7)]\<rparr>
     = Some (Inl AttributeError)"
  by (simp add: school_statistics_clean_def pontos_keywords_def escola_keywords_def
      resolver_eval clean_eval)

lemma clean_total_example:
  "set [''Escola'', ''Pontos''] \<subseteq> set (columns example_scores)
   \<and> distinct [''Escola'', ''Pontos'']
   \<and> map_sum id (\<lambda>res. column_values (data_analysis res) ''Pontos'') (clean example_parse example_scores ''Escola'' [''Pontos''])
       = Inr [Num (Fin 10), Num (Fin 20), NaN, Num (Fin 30)]
   \<and> map_sum id (\<lambda>res. (initial_count res, final_count res, removed_count res))
        (clean example_parse example_scores ''Escola'' [''Pontos'']) = Inr (4, 3, 1)"
proof -
  have a: "set [''Escola'', ''Pontos''] \<subseteq> set (columns example_scores)"
    by (simp add: example_scores_def)
  have b: "distinct [''Escola'', ''Pontos'']"
    by simp
  from clean_total [of "''Escola''" "[''Pontos'']" example_scores example_parse, OF a b]
  obtain res where r: "clean example_parse example_scores ''Escola'' [''Pontos''] = Inr res"
    and rw: "rows (data_analysis res) =
         map (\<lambda>r c. if c \<in> set [''Pontos''] \<and> dtypes example_scores c = Object then to_numeric example_parse (r c) else r c)
           (rows example_scores)"
    and dc: "data_clean res = dropna (data_analysis res)"
    and cols: "columns (data_analysis res) = [''Escola'', ''Pontos'']"
    and i: "initial_count res = int (length (rows example_scores))"
    and f: "final_count res = int (length (rows (data_clean res)))"
    and s: "final_count res + removed_count res = initial_count res"
    by blast
  have cv: "column_values (data_analysis res) ''Pontos'' = [Num (Fin 10), Num (Fin 20), NaN, Num (Fin 30)]"
    by (simp add: column_values_def rw example_scores_def example_parse_def to_numeric_def)
  have i4: "initial_count res = 4"
    by (simp add: i example_scores_def)
  have f3: "final_count res = 3"
    by (simp add: f dc dropna_def cols rw example_scores_def example_parse_def to_numeric_def)
  from s i4 f3 have "removed_count res = 1"
    by simp
  with a b cv i4 f3 show ?thesis
    by (simp add: r)
qed

text \<open>
  C4 (as amended). For every well-typed input frame on which the cleaning step
  succeeds, every row of the cleaned frame has a value in the grouping column and a
  number, not the missing marker, in every metric column; the number may be infinite.
\<close>

theorem cleaned_no_missing:
  assumes "clean parse data g ms = Inr res" and "well_typed data"
  shows "\<forall>r \<in> set (rows (data_clean res)).
           r g \<noteq> NaN \<and> (\<forall>m \<in> set ms. \<exists>v. r m = Num v)"
proof
  fix r assume r: "r \<in> set (rows (data_clean res))"
  from assms(1) obtain sel conv where gi: "getitem data (g # ms) = Inr sel"
    and cv: "convert_columns parse sel ms = Inr conv"
    and res: "data_clean res = dropna conv"
    by (auto simp: clean_def Let_def split: sum.splits)
  from gi have sub: "set (g # ms) \<subseteq> set (columns data)" and sel: "sel = data\<lparr>columns := g # ms\<rparr>"
    by (simp_all add: getitem_Inr_iff)
  note ci = convert_columns_Inr [OF cv]
  have cols: "columns conv = g # ms"
    using ci by (simp add: sel)
  have rw: "rows conv =
         map (\<lambda>r c. if c \<in> set ms \<and> dtypes data c = Object then to_numeric parse (r c) else r c)
           (rows data)"
    using ci by (simp add: sel)
  from r have rc: "r \<in> set (rows conv)" and nn: "\<forall>c \<in> set (g # ms). r c \<noteq> NaN"
    by (simp_all add: res dropna_def cols)
  from rc obtain r0 where r0: "r0 \<in> set (rows data)"
    and rr: "r = (\<lambda>c. if c \<in> set ms \<and> dtypes data c = Object then to_numeric parse (r0 c) else r0 c)"
    by (auto simp: rw)
  have "\<exists>v. r m = Num v" if m: "m \<in> set ms" for m
  proof (cases "dtypes data m")
    case Object
    with m have "r m = to_numeric parse (r0 m)" by (simp add: rr)
    moreover from nn m have "r m \<noteq> NaN" by simp
    ultimately show ?thesis
      by (auto simp: to_numeric_def split: cell.splits option.splits)
  next
    case Numeric
    with m have e: "r m = r0 m" by (simp add: rr)
    from m sub have "m \<in> set (columns data)" by auto
    with assms(2) Numeric r0 have "case r0 m of Str s \<Rightarrow> False | _ \<Rightarrow> True"
      by (auto simp: well_typed_def)
    moreover from nn m have "r m \<noteq> NaN" by simp
    ultimately show ?thesis
      by (auto simp: e split: cell.splits)
  qed
  with nn show "r g \<noteq> NaN \<and> (\<forall>m \<in> set ms. \<exists>v. r m = Num v)" by simp
qed


text \<open>
  C4 as stated fails: an infinite value of a numeric metric column is no missing value
  and stays in the cleaned frame.
\<close>

theorem cleaned_keeps_infinity:
  "map_sum id (\<lambda>res. column_values (data_clean res) ''Pontos'')
     (clean (\<lambda>s. None)
        \<lparr>columns = [''Escola'', ''Pontos''],
         dtypes = (\<lambda>c. if c = ''Pontos'' then Numeric else Object),
         rows = [\<lambda>c. if c = ''Pontos'' then Num PInf else Str ''A'']\<rparr>
        ''Escola'' [''Pontos''])
   = Inr [Num PInf]"
  by (simp add: clean_eval)

theorem cleaned_no_missing_witness:
  "well_typed example_mixed
   \<and> map_sum id (\<lambda>res. column_values (data_clean res) ''Escola'')
       (clean example_parse example_mixed ''Escola'' [''Pontos'', ''Idade'']) = Inr [Str ''A'', Str ''B'']
   \<and> map_sum id (\<lambda>res. column_values (data_clean res) ''Pontos'')
       (clean example_parse example_mixed ''Escola'' [''Pontos'', ''Idade'']) = Inr [Num (Fin 10), Num (Fin 20)]
   \<and> map_sum id (\<lambda>res. column_values (data_clean res) ''Idade'')
       (clean example_parse example_mixed ''Escola'' [''Pontos'', ''Idade'']) = Inr [Num (Fin 15), Num (Fin 14)]"
proof -
  have wt: "well_typed example_mixed"
    by (simp add: well_typed_def example_mixed_def)
  obtain res where r: "clean example_parse example_mixed ''Escola'' [''Pontos'', ''Idade''] = Inr res"
    by (simp add: clean_eval example_mixed_def)
  from cleaned_no_missing [OF r wt]
  have nm: "\<forall>r \<in> set (rows (data_clean res)).
      r ''Escola'' \<noteq> NaN \<and> (\<forall>m \<in> set [''Pontos'', ''Idade'']. \<exists>v. r m = Num v)" .
  from r have "column_values (data_clean res) ''Escola'' = [Str ''A'', Str ''B'']"
    and "column_values (data_clean res) ''Pontos'' = [Num (Fin 10), Num (Fin 20)]"
    and "column_values (data_clean res) ''Idade'' = [Num (Fin 15), Num (Fin 14)]"
    by (auto simp: clean_eval example_mixed_def example_parse_def)
  with wt nm show ?thesis
    by (simp add: r)
qed

end
